theory Spec2Isabelle
  imports Main
begin

section \<open>JavaScript values\<close>

text \<open>
  The client library handles option objects, environment strings, form fields and
  response bodies. Their values are modelled by one datatype:
  \<^item> \<open>JNum i\<close> is the integer-valued number \<open>i\<close> (fractions, NaN and the exponent
    notation of very large numbers are left out);
  \<^item> \<open>JObj ps\<close> is a plain object, its properties in the order \<open>Object.keys\<close> lists them;
  \<^item> \<open>JErr n m\<close> is an \<open>Error\<close> instance whose \<open>name\<close> is \<open>n\<close> and whose \<open>message\<close> is
    \<open>m\<close>; it has no other data property (the engine's \<open>stack\<close> is left out).
  Strings are byte strings.
\<close>

datatype jsval =
    JUndefined
  | JNull
  | JBool bool
  | JNum int
  | JStr string
  | JObj "(string \<times> jsval) list"
  | JErr string string

type_synonym props = "(string \<times> jsval) list"

text \<open>Truthiness, as \<open>||\<close> and \<open>if\<close> read it.\<close>

fun truthy :: "jsval \<Rightarrow> bool" where
  "truthy JUndefined = False"
| "truthy JNull = False"
| "truthy (JBool b) = b"
| "truthy (JNum i) = (i \<noteq> 0)"
| "truthy (JStr s) = (s \<noteq> [])"
| "truthy (JObj ps) = True"
| "truthy (JErr n m) = True"

text \<open>\<open>a || b\<close>: the left operand when it is truthy, the right one otherwise.\<close>

definition js_or :: "jsval \<Rightarrow> jsval \<Rightarrow> jsval" where
  "js_or a b = (if truthy a then a else b)"

text \<open>Decimal digits of a natural number, and of an integer.\<close>

fun show_nat :: "nat \<Rightarrow> string" where
  "show_nat n =
     (if n < 10 then [''0123456789'' ! n]
      else show_nat (n div 10) @ [''0123456789'' ! (n mod 10)])"

declare show_nat.simps [simp del]

definition show_int :: "int \<Rightarrow> string" where
  "show_int i = (if i < 0 then CHR ''-'' # show_nat (nat (- i)) else show_nat (nat i))"

text \<open>
  Errors the engine throws. The wording of a message is the engine's; only the name
  matters below.
\<close>

definition TypeError :: "string \<Rightarrow> jsval" where
  "TypeError m = JErr ''TypeError'' m"

text \<open>
  Conversion to a string, as a template literal does it, and the \<open>toString\<close> method: the
  same string, except that calling the method on \<open>undefined\<close> or \<open>null\<close> throws.
\<close>

fun ToString :: "jsval \<Rightarrow> string" where
  "ToString JUndefined = ''undefined''"
| "ToString JNull = ''null''"
| "ToString (JBool b) = (if b then ''true'' else ''false'')"
| "ToString (JNum i) = show_int i"
| "ToString (JStr s) = s"
| "ToString (JObj ps) = ''[object Object]''"
| "ToString (JErr n m) = (if n = [] then m else if m = [] then n else n @ '': '' @ m)"

definition toString_method :: "jsval \<Rightarrow> jsval + string" where
  "toString_method v =
     (if v = JUndefined \<or> v = JNull
      then Inl (TypeError (''Cannot read property toString of '' @ ToString v))
      else Inr (ToString v))"

text \<open>Reading a property of a plain object: \<open>undefined\<close> when it has none of that name.\<close>

definition get_prop :: "props \<Rightarrow> string \<Rightarrow> jsval" where
  "get_prop ps k = (case map_of ps k of None \<Rightarrow> JUndefined | Some v \<Rightarrow> v)"

text \<open>
  Defining a property (object literal, spread): an existing name keeps its place and
  takes the new value, a new name goes last.
\<close>

primrec define_prop :: "string \<Rightarrow> jsval \<Rightarrow> props \<Rightarrow> props" where
  "define_prop k v [] = [(k, v)]"
| "define_prop k v (p # ps) = (if fst p = k then (k, v) # ps else p # define_prop k v ps)"

text \<open>\<open>delete o.k\<close>.\<close>

definition delete_prop :: "string \<Rightarrow> props \<Rightarrow> props" where
  "delete_prop k ps = filter (\<lambda>p. fst p \<noteq> k) ps"

text \<open>\<open>{...a, ...b}\<close>: the properties of \<open>b\<close> defined one by one over those of \<open>a\<close>.\<close>

definition spread :: "props \<Rightarrow> props \<Rightarrow> props" where
  "spread a b = fold (\<lambda>p acc. define_prop (fst p) (snd p) acc) b a"

text \<open>
  \<open>v.k\<close> on any value: a throw (\<open>Inl\<close>) on \<open>undefined\<close> and \<open>null\<close>, the property of an
  object, \<open>name\<close> and \<open>message\<close> of an error, \<open>undefined\<close> on a primitive (none of the
  names read below is a method of a primitive's prototype).
\<close>

fun get_member :: "jsval \<Rightarrow> string \<Rightarrow> jsval + jsval" where
  "get_member JUndefined k = Inl (TypeError (''Cannot read property '' @ k @ '' of undefined''))"
| "get_member JNull k = Inl (TypeError (''Cannot read property '' @ k @ '' of null''))"
| "get_member (JObj ps) k = Inr (get_prop ps k)"
| "get_member (JErr n m) k =
     Inr (if k = ''name'' then JStr n else if k = ''message'' then JStr m else JUndefined)"
| "get_member v k = Inr JUndefined"

section \<open>Configuration\<close>

text \<open>
  The constructor reads an options object and the process environment. The environment
  is a parameter: a variable that is not set reads as \<open>undefined\<close>, a set one as its
  string. The logger the constructor also installs takes no part in the configuration.
\<close>

definition process_env :: "(string \<rightharpoonup> string) \<Rightarrow> string \<Rightarrow> jsval" where
  "process_env env k = (case env k of None \<Rightarrow> JUndefined | Some s \<Rightarrow> JStr s)"

record configuration =
  secret :: jsval
  bankPublicKey :: jsval
  calbackUrl :: jsval
  useTest :: jsval
  merchantId :: jsval
  apiVersion :: jsval
  currency :: jsval
  language :: jsval
  country :: jsval
  gateUrl :: string

text \<open>The constructor of the current module (the unnamed source file).\<close>

definition ComgatePaymentModule :: "props \<Rightarrow> (string \<rightharpoonup> string) \<Rightarrow> configuration" where
  "ComgatePaymentModule config env =
     (let version =
            js_or (js_or (get_prop config ''apiVersion'') (process_env env ''API_VERSION''))
              (JStr ''1.0'')
      in \<lparr> secret = js_or (get_prop config ''secret'') (process_env env ''MERCHANT_SECRET''),
           bankPublicKey =
             js_or (get_prop config ''bankPublicKey'') (process_env env ''BANK_PUBLIC_KEY''),
           calbackUrl = js_or (get_prop config ''calbackUrl'') (process_env env ''CALLBACK_URL''),
           useTest =
             js_or (js_or (get_prop config ''useTest'') (process_env env ''USE_TEST''))
               (JBool False),
           merchantId = js_or (get_prop config ''merchantId'') (process_env env ''MERCHANT_ID''),
           apiVersion = version,
           currency = js_or (get_prop config ''currency'') (JStr ''CZK''),
           language = js_or (get_prop config ''language'') (JStr ''cs''),
           country = js_or (get_prop config ''country'') (JStr ''CZ''),
           gateUrl =
             ToString
               (js_or (js_or (get_prop config ''gateUrl'') (process_env env ''GATEWAY_URL''))
                  (JStr ''https://payments.comgate.cz''))
             @ ''/v'' @ ToString version \<rparr>)"

text \<open>
  The constructor of \<open>src/index.js\<close>. It reads \<open>currency\<close>, \<open>language\<close> and \<open>country\<close> as
  properties of \<open>config.apiVersion\<close>, which throws when that option is \<open>undefined\<close> or
  \<open>null\<close>; its gate URL has no literal default; and it adds a payload template.
\<close>

record configuration_index = configuration +
  payloadTemplate :: props

definition ComgatePaymentModule_index ::
    "props \<Rightarrow> (string \<rightharpoonup> string) \<Rightarrow> jsval + configuration_index" where
  "ComgatePaymentModule_index config env =
     (case get_member (get_prop config ''apiVersion'') ''currency'' of
        Inl e \<Rightarrow> Inl e
      | Inr cur \<Rightarrow>
     (case get_member (get_prop config ''apiVersion'') ''language'' of
        Inl e \<Rightarrow> Inl e
      | Inr lang \<Rightarrow>
     (case get_member (get_prop config ''apiVersion'') ''country'' of
        Inl e \<Rightarrow> Inl e
      | Inr ctry \<Rightarrow>
        (let version =
               js_or (js_or (get_prop config ''apiVersion'') (process_env env ''API_VERSION''))
                 (JStr ''1.0'');
             merchant = js_or (get_prop config ''merchantId'') (process_env env ''MERCHANT_ID'');
             callback = js_or (get_prop config ''calbackUrl'') (process_env env ''CALLBACK_URL'')
         in Inr \<lparr> secret =
                    js_or (get_prop config ''secret'') (process_env env ''MERCHANT_SECRET''),
                  bankPublicKey =
                    js_or (get_prop config ''bankPublicKey'')
                      (process_env env ''BANK_PUBLIC_KEY''),
                  calbackUrl = callback,
                  useTest =
                    js_or (js_or (get_prop config ''useTest'') (process_env env ''USE_TEST''))
                      (JBool False),
                  merchantId = merchant,
                  apiVersion = version,
                  currency = js_or cur (JStr ''CZK''),
                  language = js_or lang (JStr ''cs''),
                  country = js_or ctry (JStr ''CZ''),
                  gateUrl =
                    ToString (js_or (get_prop config ''gateUrl'') (process_env env ''GATEWAY_URL''))
                    @ ''/v'' @ ToString version,
                  payloadTemplate =
                    [(''merchantId'', merchant),
                     (''payOperation'', JStr ''payment''),
                     (''payMethod'', JStr ''card''),
                     (''currency'', JStr ''CZK''),
                     (''language'', JStr ''CZ''),
                     (''returnUrl'', callback),
                     (''returnMethod'', JStr ''POST'')] \<rparr>))))"


section \<open>Errors, promises and the platform\<close>

text \<open>
  Both error classes call \<open>super(message)\<close> and set \<open>this.name\<close>; neither stores its
  second argument. \<open>Error\<close> converts a given message to a string and leaves the inherited
  empty message when none is given.
\<close>

definition APIError :: "jsval \<Rightarrow> jsval \<Rightarrow> jsval" where
  "APIError message status =
     JErr ''APIError'' (if message = JUndefined then [] else ToString message)"

definition PaymentError :: "jsval \<Rightarrow> jsval \<Rightarrow> jsval" where
  "PaymentError message status =
     JErr ''PaymentError'' (if message = JUndefined then [] else ToString message)"

text \<open>
  A settled promise, and the outcome of running a callback body: it returns or it
  throws. \<open>then\<close> passes a rejection on, turns a throw of its callback into a rejection,
  and adopts the promise the callback returns (a plain return value is a fulfilled one).
  \<open>try/catch\<close> sees a throw only; a promise that is returned rejected is not a throw.
\<close>

datatype 'a promise = Fulfilled 'a | Rejected jsval

datatype 'a completion = Returned 'a | Thrown jsval

definition then_promise :: "'a promise \<Rightarrow> ('a \<Rightarrow> 'b promise completion) \<Rightarrow> 'b promise" where
  "then_promise p callback =
     (case p of
        Rejected e \<Rightarrow> Rejected e
      | Fulfilled v \<Rightarrow> (case callback v of Thrown e \<Rightarrow> Rejected e | Returned q \<Rightarrow> q))"

definition try_catch :: "'a completion \<Rightarrow> (jsval \<Rightarrow> 'a completion) \<Rightarrow> 'a completion" where
  "try_catch body handler = (case body of Thrown e \<Rightarrow> handler e | Returned x \<Rightarrow> Returned x)"

text \<open>
  A response as the fetch library hands it over: the status, what
  \<open>headers.get("content-type")\<close> returns (\<open>None\<close> is \<open>null\<close>, no such header), the text
  \<open>text()\<close> resolves with, and how \<open>json()\<close> settles (\<open>Inl\<close>: it rejects with that error,
  as it does on a body that is not JSON; \<open>Inr\<close>: it resolves with that value). Both
  methods return promises and never throw.
\<close>

record response =
  res_status :: nat
  content_type :: "string option"
  res_text :: string
  res_json :: "jsval + jsval"

definition ok :: "response \<Rightarrow> bool" where
  "ok res = (200 \<le> res_status res \<and> res_status res < 300)"

definition text_promise :: "response \<Rightarrow> string promise" where
  "text_promise res = Fulfilled (res_text res)"

definition json_promise :: "response \<Rightarrow> jsval promise" where
  "json_promise res = (case res_json res of Inl e \<Rightarrow> Rejected e | Inr v \<Rightarrow> Fulfilled v)"

record request =
  req_url :: string
  req_method :: string
  req_body :: "props option"
  req_headers :: "(string \<times> string) list"

text \<open>
  What the module takes from outside: \<open>fetch\<close>, \<open>JSON.stringify\<close>, and the boundary a new
  \<open>FormData\<close> picks for its content-type header.
\<close>

record platform =
  fetch :: "request \<Rightarrow> response promise"
  JSON_stringify :: "jsval \<Rightarrow> string"
  boundary :: string

text \<open>\<open>s.includes(sub)\<close>.\<close>

primrec str_includes :: "string \<Rightarrow> string \<Rightarrow> bool" where
  "str_includes [] sub = (sub = [])"
| "str_includes (c # cs) sub = (take (length sub) (c # cs) = sub \<or> str_includes cs sub)"

section \<open>URL-encoded bodies\<close>

text \<open>
  \<open>new URLSearchParams(payload)\<close> as the URL standard defines it: a leading \<open>?\<close> is
  dropped, the input is cut at every \<open>&\<close>, empty pieces are skipped, each piece is cut at
  its first \<open>=\<close> into name and value, \<open>+\<close> becomes a space, and percent escapes are
  decoded (to bytes; the model does not go on to decode UTF-8).
\<close>

primrec split_on :: "char \<Rightarrow> string \<Rightarrow> string list" where
  "split_on d [] = [[]]"
| "split_on d (c # cs) =
     (if c = d then [] # split_on d cs
      else (case split_on d cs of [] \<Rightarrow> [[c]] | w # ws \<Rightarrow> (c # w) # ws))"

definition hex_digit :: "char \<Rightarrow> nat option" where
  "hex_digit c =
     (let n = of_char c :: nat
      in if 48 \<le> n \<and> n \<le> 57 then Some (n - 48)
         else if 65 \<le> n \<and> n \<le> 70 then Some (n - 55)
         else if 97 \<le> n \<and> n \<le> 102 then Some (n - 87)
         else None)"

fun percent_decode :: "string \<Rightarrow> string" where
  "percent_decode (c # h # l # rest) =
     (case (c = CHR ''%'', hex_digit h, hex_digit l) of
        (True, Some a, Some b) \<Rightarrow> char_of (16 * a + b) # percent_decode rest
      | _ \<Rightarrow> c # percent_decode (h # l # rest))"
| "percent_decode (c # cs) = c # percent_decode cs"
| "percent_decode [] = []"

definition plus_to_space :: "string \<Rightarrow> string" where
  "plus_to_space s = map (\<lambda>c. if c = CHR ''+'' then CHR '' '' else c) s"

definition URLSearchParams :: "string \<Rightarrow> (string \<times> string) list" where
  "URLSearchParams init =
     (let input = (case init of [] \<Rightarrow> [] | c # cs \<Rightarrow> if c = CHR ''?'' then cs else init)
      in map (\<lambda>piece.
                (percent_decode (plus_to_space (takeWhile (\<lambda>c. c \<noteq> CHR ''='') piece)),
                 percent_decode
                   (plus_to_space (drop 1 (dropWhile (\<lambda>c. c \<noteq> CHR ''='') piece)))))
           (filter (\<lambda>piece. piece \<noteq> []) (split_on CHR ''&'' input)))"

text \<open>
  \<open>out[key] = value\<close> on an object created by \<open>{}\<close>: an ordinary name is defined or
  overwritten; the name \<open>__proto__\<close> reaches the inherited setter, which ignores a string,
  so the object gets no property.
\<close>

definition assign_prop :: "string \<Rightarrow> jsval \<Rightarrow> props \<Rightarrow> props" where
  "assign_prop k v ps = (if k = ''__proto__'' then ps else define_prop k v ps)"

text \<open>The object \<open>out\<close> that the \<open>forEach\<close> over the parameters builds, starting from \<open>{}\<close>.\<close>

definition urlencoded_out :: "string \<Rightarrow> props" where
  "urlencoded_out payload =
     fold (\<lambda>entry out. assign_prop (fst entry) (JStr (snd entry)) out) (URLSearchParams payload) []"

section \<open>The dispatcher\<close>

text \<open>
  The request \<open>_makeAPICall\<close> hands to \<open>fetch\<close>. Given data, the form starts with
  \<open>type=json\<close> and has one field per key, \<open>(data[key] || "").toString()\<close>, where the
  receiver is a truthy value or the empty string, so the method does not throw; \<open>None\<close>
  stands for data that is omitted or \<open>null\<close>, which gives a request with a method only.
\<close>

definition form_fields :: "props \<Rightarrow> props" where
  "form_fields data =
     (''type'', JStr ''json'')
     # map (\<lambda>key. (key, JStr (ToString (js_or (get_prop data key) (JStr []))))) (map fst data)"

definition getHeaders :: "platform \<Rightarrow> (string \<times> string) list" where
  "getHeaders pf = [(''content-type'', ''multipart/form-data; boundary='' @ boundary pf)]"

definition api_request ::
    "platform \<Rightarrow> 'a configuration_scheme \<Rightarrow> string \<Rightarrow> props option \<Rightarrow> string \<Rightarrow> request" where
  "api_request pf c path data http_method =
     \<lparr> req_url = gateUrl c @ ''/'' @ path,
       req_method = http_method,
       req_body = (case data of None \<Rightarrow> None | Some d \<Rightarrow> Some (form_fields d)),
       req_headers =
         (case data of
            None \<Rightarrow> []
          | Some d \<Rightarrow> getHeaders pf @ [(''accept'', ''application/json'')]) \<rparr>"

text \<open>The body of the callback that receives the response.\<close>

definition on_response :: "platform \<Rightarrow> response \<Rightarrow> jsval promise completion" where
  "on_response pf res =
     (case content_type res of
        None \<Rightarrow> Thrown (TypeError ''Cannot read property includes of null'')
      | Some contentType \<Rightarrow>
          (let isJSON = str_includes contentType ''application/json'' in
           if \<not> ok res then
             Returned (then_promise (text_promise res) (\<lambda>errorBody.
               Returned (Rejected (APIError (JStr errorBody) (JNum (int (res_status res)))))))
           else
             try_catch
               (if isJSON then
                  Returned (then_promise (json_promise res) (\<lambda>json.
                    case get_member json ''error'' of
                      Inl e \<Rightarrow> Thrown e
                    | Inr err \<Rightarrow>
                        if truthy err then
                          Returned (Rejected
                            (APIError (JStr (JSON_stringify pf err)) (JNum (int (res_status res)))))
                        else Returned (Fulfilled json)))
                else
                  Returned (then_promise (text_promise res) (\<lambda>payload.
                    if str_includes contentType ''form-urlencoded''
                       \<or> str_includes contentType ''text/html''
                    then
                      (let out = urlencoded_out payload in
                       if get_prop out ''code'' \<noteq> JStr ''0'' then
                         Returned (Rejected
                           (PaymentError (get_prop out ''message'') (get_prop out ''code'')))
                       else
                         Returned (Fulfilled
                           (JObj (delete_prop ''message'' (delete_prop ''code'' out)))))
                    else Returned (Fulfilled (JStr payload)))))
               (\<lambda>error. Returned (Rejected (APIError error (JNum (int (res_status res))))))))"

text \<open>
  \<open>_makeAPICall\<close>: the request it issues, and the promise it returns. The callers pass
  two arguments, so the method is its default, \<open>POST\<close>.
\<close>

definition makeAPICall ::
    "platform \<Rightarrow> 'a configuration_scheme \<Rightarrow> string \<Rightarrow> props option \<Rightarrow> string
      \<Rightarrow> request \<times> jsval promise" where
  "makeAPICall pf c path data http_method =
     (let req = api_request pf c path data http_method
      in (req, then_promise (fetch pf req) (on_response pf)))"


fun FormData_append :: "jsval \<Rightarrow> jsval + jsval" where
  "FormData_append (JNum i) = Inr (JStr (show_int i))"
| "FormData_append (JStr s) = Inr (JStr s)"
| "FormData_append (JBool b) = Inr (JBool b)"
| "FormData_append v = Inl (TypeError ''source.on is not a function'')"







section \<open>The payment operations\<close>

definition methods :: "platform \<Rightarrow> 'a configuration_scheme \<Rightarrow> request \<times> jsval promise" where
  "methods pf c =
     makeAPICall pf c ''methods''
       (Some [(''merchant'', merchantId c),
              (''secret'', secret c),
              (''lang'', language c),
              (''curr'', currency c),
              (''country'', country c)])
       ''POST''"

definition create ::
    "platform \<Rightarrow> 'a configuration_scheme \<Rightarrow> props \<Rightarrow> request \<times> jsval promise" where
  "create pf c params =
     makeAPICall pf c ''create''
       (Some (spread
          [(''merchant'', merchantId c),
           (''test'', useTest c),
           (''country'', country c),
           (''curr'', currency c),
           (''secret'', secret c),
           (''lang'', language c),
           (''method'', JStr ''ALL'')]
          params))
       ''POST''"

definition cancel ::
    "platform \<Rightarrow> 'a configuration_scheme \<Rightarrow> jsval \<Rightarrow> request \<times> jsval promise" where
  "cancel pf c transactionId =
     makeAPICall pf c ''cancel''
       (Some [(''merchant'', merchantId c),
              (''transId'', transactionId),
              (''secret'', secret c)])
       ''POST''"

text \<open>
  \<open>refund\<close> works on the caller's own \<open>params\<close> object, so the model returns that object
  as the call leaves it, next to the outcome. Without a \<open>params\<close> object (\<open>None\<close>: the
  argument is omitted or \<open>null\<close>) the destructuring throws. The fields are evaluated after
  the \<open>delete\<close>, so a throw of \<open>useTest.toString()\<close> comes after the object has changed.
\<close>

definition refund ::
    "platform \<Rightarrow> 'a configuration_scheme \<Rightarrow> jsval \<Rightarrow> props option
      \<Rightarrow> props option \<times> (request \<times> jsval promise) completion" where
  "refund pf c transactionId params =
     (case params of
        None \<Rightarrow> (None, Thrown (TypeError ''Cannot destructure property amount of undefined''))
      | Some p \<Rightarrow>
          (let amount = get_prop p ''amount'';
               p' = delete_prop ''amount'' p
           in (Some p',
               case toString_method (useTest c) of
                 Inl e \<Rightarrow> Thrown e
               | Inr test \<Rightarrow>
                   Returned
                     (makeAPICall pf c ''refund''
                        (Some (spread
                           [(''merchant'', merchantId c),
                            (''transId'', transactionId),
                            (''secret'', secret c),
                            (''test'', JStr test),
                            (''curr'', currency c),
                            (''amount'', JStr (ToString (js_or amount (JStr []))))]
                           p'))
                        ''POST''))))"

definition status ::
    "platform \<Rightarrow> 'a configuration_scheme \<Rightarrow> jsval \<Rightarrow> request \<times> jsval promise" where
  "status pf c transactionId =
     makeAPICall pf c ''status''
       (Some [(''merchant'', merchantId c),
              (''transId'', transactionId),
              (''secret'', secret c)])
       ''POST''"



section \<open>Example inputs\<close>

text \<open>
  A platform whose \<open>fetch\<close> fulfils every request with one given response. None of the
  examples reaches \<open>JSON.stringify\<close> or depends on the form boundary.
\<close>

definition answering :: "response \<Rightarrow> platform" where
  "answering res =
     \<lparr> fetch = (\<lambda>req. Fulfilled res), JSON_stringify = (\<lambda>v. []), boundary = [] \<rparr>"

text \<open>The error \<open>json()\<close> rejects with on a body that is not JSON.\<close>

definition invalid_json :: jsval where
  "invalid_json = JErr ''FetchError'' ''invalid json response body''"

definition urlencoded_ok :: response where
  "urlencoded_ok =
     \<lparr> res_status = 200,
       content_type = Some ''application/x-www-form-urlencoded'',
       res_text = ''code=0&message=ok&foo=bar'',
       res_json = Inl invalid_json \<rparr>"

definition urlencoded_failed :: response where
  "urlencoded_failed =
     \<lparr> res_status = 200,
       content_type = Some ''application/x-www-form-urlencoded'',
       res_text = ''code=1&message=failed'',
       res_json = Inl invalid_json \<rparr>"

text \<open>The same two bodies under a content-type that names both HTML and JSON.\<close>

definition both_types_ok :: response where
  "both_types_ok =
     \<lparr> res_status = 200,
       content_type = Some ''text/html; alt=application/json'',
       res_text = ''code=0&message=ok&foo=bar'',
       res_json = Inl invalid_json \<rparr>"

definition both_types_failed :: response where
  "both_types_failed =
     \<lparr> res_status = 200,
       content_type = Some ''text/html; alt=application/json'',
       res_text = ''code=1&message=failed'',
       res_json = Inl invalid_json \<rparr>"

text \<open>A successful response that claims JSON and carries a body that is not JSON.\<close>

definition malformed_json :: response where
  "malformed_json =
     \<lparr> res_status = 200,
       content_type = Some ''application/json'',
       res_text = ''{oops'',
       res_json = Inl invalid_json \<rparr>"

text \<open>A successful JSON response whose body is the JSON text \<open>null\<close>.\<close>

definition json_null :: response where
  "json_null =
     \<lparr> res_status = 200,
       content_type = Some ''application/json'',
       res_text = ''null'',
       res_json = Inr JNull \<rparr>"

text \<open>A failure response that has no Content-Type header.\<close>

definition server_error_without_type :: response where
  "server_error_without_type =
     \<lparr> res_status = 500,
       content_type = None,
       res_text = ''Internal Server Error'',
       res_json = Inl invalid_json \<rparr>"




section \<open>Properties of the configuration\<close>




lemma ComgatePaymentModule_fields:
  "secret (ComgatePaymentModule config env) =
     js_or (get_prop config ''secret'') (process_env env ''MERCHANT_SECRET'')"
  "bankPublicKey (ComgatePaymentModule config env) =
     js_or (get_prop config ''bankPublicKey'') (process_env env ''BANK_PUBLIC_KEY'')"
  "calbackUrl (ComgatePaymentModule config env) =
     js_or (get_prop config ''calbackUrl'') (process_env env ''CALLBACK_URL'')"
  "useTest (ComgatePaymentModule config env) =
     js_or (js_or (get_prop config ''useTest'') (process_env env ''USE_TEST'')) (JBool False)"
  "merchantId (ComgatePaymentModule config env) =
     js_or (get_prop config ''merchantId'') (process_env env ''MERCHANT_ID'')"
  "apiVersion (ComgatePaymentModule config env) =
     js_or (js_or (get_prop config ''apiVersion'') (process_env env ''API_VERSION''))
       (JStr ''1.0'')"
  "currency (ComgatePaymentModule config env) = js_or (get_prop config ''currency'') (JStr ''CZK'')"
  "language (ComgatePaymentModule config env) = js_or (get_prop config ''language'') (JStr ''cs'')"
  "country (ComgatePaymentModule config env) = js_or (get_prop config ''country'') (JStr ''CZ'')"
  "gateUrl (ComgatePaymentModule config env) =
     ToString
       (js_or (js_or (get_prop config ''gateUrl'') (process_env env ''GATEWAY_URL''))
          (JStr ''https://payments.comgate.cz''))
     @ ''/v'' @ ToString (apiVersion (ComgatePaymentModule config env))"
  by (simp_all add: ComgatePaymentModule_def Let_def)


lemma get_member_returns:
  "(\<exists>x. get_member v k = Inr x) = (v \<noteq> JUndefined \<and> v \<noteq> JNull)"
  by (cases v) simp_all







text \<open>The instances the specification lists.\<close>

lemma merchantId_precedence:
  "merchantId (ComgatePaymentModule [(''merchantId'', JStr ''A'')] (map_of [(''MERCHANT_ID'', ''B'')]))
     = JStr ''A''"
  "merchantId (ComgatePaymentModule [] (map_of [(''MERCHANT_ID'', ''B'')])) = JStr ''B''"
  "merchantId (ComgatePaymentModule [] Map.empty) = JUndefined"
  by (simp_all add: ComgatePaymentModule_def js_or_def get_prop_def process_env_def)

lemma gateUrl_derivation:
  "gateUrl (ComgatePaymentModule [(''apiVersion'', JStr ''2.0'')] Map.empty)
     = ''https://payments.comgate.cz/v2.0''"
  by (simp add: ComgatePaymentModule_def js_or_def get_prop_def process_env_def)

text \<open>
  C8 on \<open>src/index.js\<close>: constructing with the empty options object throws a TypeError,
  whatever the environment holds, because \<open>config.apiVersion.currency\<close> is read while
  \<open>config.apiVersion\<close> is \<open>undefined\<close>.
\<close>

theorem index_constructor_throws_on_empty_options:
  "ComgatePaymentModule_index [] env
     = Inl (TypeError ''Cannot read property currency of undefined'')"
  by (simp add: ComgatePaymentModule_index_def get_prop_def)

section \<open>Properties of the error classes\<close>

text \<open>
  C3 on the code: an \<open>APIError\<close> built with a message and the status 404 has no \<open>status\<close>
  property, and a \<open>PaymentError\<close> built with a message and the code \<open>"1"\<close> has neither a
  \<open>code\<close> nor a \<open>status\<close> property; both constructors drop their second argument.
\<close>

theorem error_classes_drop_second_argument:
  "get_member (APIError (JStr ''Not Found'') (JNum 404)) ''message'' = Inr (JStr ''Not Found'')
   \<and> get_member (APIError (JStr ''Not Found'') (JNum 404)) ''status'' = Inr JUndefined
   \<and> get_member (PaymentError (JStr ''failed'') (JStr ''1'')) ''message'' = Inr (JStr ''failed'')
   \<and> get_member (PaymentError (JStr ''failed'') (JStr ''1'')) ''code'' = Inr JUndefined
   \<and> get_member (PaymentError (JStr ''failed'') (JStr ''1'')) ''status'' = Inr JUndefined"
  by (simp add: APIError_def PaymentError_def)

lemma error_classes_ignore_status:
  "APIError message second = APIError message JUndefined"
  "PaymentError message second = PaymentError message JUndefined"
  by (simp_all add: APIError_def PaymentError_def)

section \<open>Properties of the request\<close>

lemma form_fields_are_strings:
  "(k, v) \<in> set (form_fields data) \<Longrightarrow> \<exists>s. v = JStr s"
  by (auto simp add: form_fields_def)

lemma form_fields_type_json:
  "hd (form_fields data) = (''type'', JStr ''json'')"
  by (simp add: form_fields_def)

lemma form_field_value:
  "ToString (js_or v (JStr [])) = (if truthy v then ToString v else [])"
  by (simp add: js_or_def)

text \<open>
  C4 on the code: \<open>create\<close> with the default configuration and a price of 0 sends the
  fields \<open>test\<close> (the boolean \<open>false\<close>) and \<open>price\<close> (the number 0) as empty strings, not as
  \<open>"false"\<close> and \<open>"0"\<close>.
\<close>

theorem create_sends_false_and_zero_as_empty:
  "req_body (fst (create pf (ComgatePaymentModule [] Map.empty) [(''price'', JNum 0)]))
     = Some [(''type'', JStr ''json''),
             (''merchant'', JStr []),
             (''test'', JStr []),
             (''country'', JStr ''CZ''),
             (''curr'', JStr ''CZK''),
             (''secret'', JStr []),
             (''lang'', JStr ''cs''),
             (''method'', JStr ''ALL''),
             (''price'', JStr [])]"
  by (simp add: create_def makeAPICall_def api_request_def form_fields_def spread_def
      ComgatePaymentModule_def js_or_def get_prop_def process_env_def Let_def)

section \<open>Properties of the response interpretation\<close>

lemma call_on_response:
  "fetch pf (api_request pf c path data http_method) = Fulfilled res \<Longrightarrow>
   snd (makeAPICall pf c path data http_method) =
     (case on_response pf res of Thrown e \<Rightarrow> Rejected e | Returned q \<Rightarrow> q)"
  by (simp add: makeAPICall_def Let_def then_promise_def)

lemma call_answering:
  "snd (makeAPICall (answering res) c path data http_method) =
     (case on_response (answering res) res of Thrown e \<Rightarrow> Rejected e | Returned q \<Rightarrow> q)"
  by (rule call_on_response) (simp add: answering_def)

lemma on_response_failure:
  assumes "\<not> ok res" and "content_type res = Some ct"
  shows "on_response pf res =
     Returned (Rejected (APIError (JStr (res_text res)) (JNum (int (res_status res)))))"
  using assms by (simp add: on_response_def then_promise_def text_promise_def Let_def)

lemma on_response_urlencoded:
  assumes "ok res"
    and "content_type res = Some ct"
    and "\<not> str_includes ct ''application/json''"
    and "str_includes ct ''form-urlencoded'' \<or> str_includes ct ''text/html''"
  shows "on_response pf res =
     Returned
       (let out = urlencoded_out (res_text res) in
        if get_prop out ''code'' \<noteq> JStr ''0''
        then Rejected (PaymentError (get_prop out ''message'') (get_prop out ''code''))
        else Fulfilled (JObj (delete_prop ''message'' (delete_prop ''code'' out))))"
  using assms
  by (simp add: on_response_def then_promise_def try_catch_def text_promise_def Let_def)

lemma on_response_json:
  assumes "ok res"
    and "content_type res = Some ct"
    and "str_includes ct ''application/json''"
  shows "on_response pf res =
     Returned
       (case res_json res of
          Inl e \<Rightarrow> Rejected e
        | Inr json \<Rightarrow>
            (case get_member json ''error'' of
               Inl e \<Rightarrow> Rejected e
             | Inr err \<Rightarrow>
                 if truthy err
                 then Rejected (APIError (JStr (JSON_stringify pf err)) (JNum (int (res_status res))))
                 else Fulfilled json))"
  using assms
  by (simp add: on_response_def then_promise_def try_catch_def json_promise_def Let_def
      split: sum.splits)

lemma delete_code_and_message:
  "delete_prop ''message'' (delete_prop ''code'' ps) =
     filter (\<lambda>p. fst p \<noteq> ''code'' \<and> fst p \<noteq> ''message'') ps"
  by (induction ps) (auto simp: delete_prop_def)

lemma urlencoded_out_examples:
  "urlencoded_out ''code=0&message=ok&foo=bar'' =
     [(''code'', JStr ''0''), (''message'', JStr ''ok''), (''foo'', JStr ''bar'')]"
  "urlencoded_out ''code=1&message=failed'' =
     [(''code'', JStr ''1''), (''message'', JStr ''failed'')]"
  by (simp_all add: urlencoded_out_def URLSearchParams_def plus_to_space_def assign_prop_def)

lemma content_type_examples:
  "\<not> str_includes ''application/x-www-form-urlencoded'' ''application/json''"
  "str_includes ''application/x-www-form-urlencoded'' ''form-urlencoded''"
  "str_includes ''text/html; alt=application/json'' ''application/json''"
  "str_includes ''text/html; alt=application/json'' ''text/html''"
  "str_includes ''application/json'' ''application/json''"
  by simp_all

text \<open>
  C1 on the code: a successful response that declares \<open>application/json\<close> and whose body
  fails to parse makes the call reject with the parser's own error, and a body that is
  the JSON \<open>null\<close> makes it reject with the TypeError of reading \<open>json.error\<close>; neither is
  an \<open>APIError\<close>. The \<open>try/catch\<close> around the parsing only sees a throw, and the body
  methods report their failures through the promises they return.
\<close>

theorem parse_failure_rejects_with_raw_error:
  "snd (makeAPICall (answering malformed_json) c path data http_method)
     = Rejected (JErr ''FetchError'' ''invalid json response body'')
   \<and> snd (makeAPICall (answering json_null) c path data http_method)
     = Rejected (JErr ''TypeError'' ''Cannot read property error of null'')"
proof -
  have "on_response pf malformed_json = Returned (Rejected invalid_json)" for pf
    using on_response_json [of malformed_json "''application/json''" pf]
    by (simp add: malformed_json_def ok_def)
  moreover have "on_response pf json_null
      = Returned (Rejected (TypeError ''Cannot read property error of null''))" for pf
    using on_response_json [of json_null "''application/json''" pf]
    by (simp add: json_null_def ok_def)
  ultimately show ?thesis
    by (simp add: call_answering invalid_json_def TypeError_def)
qed

text \<open>
  C2 on the code: a response with status 500 and no Content-Type header makes the call
  reject with the TypeError of calling \<open>includes\<close> on \<open>null\<close>, not with an \<open>APIError\<close>: the
  content type is inspected before the status.
\<close>

theorem failure_without_content_type_rejects_with_type_error:
  "snd (makeAPICall (answering server_error_without_type) c path data http_method)
     = Rejected (JErr ''TypeError'' ''Cannot read property includes of null'')"
  by (simp add: call_answering on_response_def server_error_without_type_def TypeError_def)

text \<open>With a Content-Type header, whatever it says, a failure status gives the \<open>APIError\<close>
  built from the body text and the status.\<close>

lemma failure_rejects_with_APIError:
  assumes "fetch pf (api_request pf c path data http_method) = Fulfilled res"
    and "\<not> ok res"
    and "content_type res = Some ct"
  shows "snd (makeAPICall pf c path data http_method) =
     Rejected (APIError (JStr (res_text res)) (JNum (int (res_status res))))"
  using call_on_response [OF assms(1)] on_response_failure [OF assms(2,3), of pf]
  by simp

text \<open>
  C6, as the code has it. When a successful response has a content-type that contains
  \<open>form-urlencoded\<close> or \<open>text/html\<close> and does not contain \<open>application/json\<close>, and the
  object built from its URL-encoded body has the \<open>code\<close> \<open>"0"\<close>, the call resolves with
  that object without its \<open>code\<close> and \<open>message\<close> entries, every other entry as it was.
\<close>

theorem urlencoded_success:
  assumes "fetch pf (api_request pf c path data http_method) = Fulfilled res"
    and "ok res"
    and "content_type res = Some ct"
    and "\<not> str_includes ct ''application/json''"
    and "str_includes ct ''form-urlencoded'' \<or> str_includes ct ''text/html''"
    and "get_prop (urlencoded_out (res_text res)) ''code'' = JStr ''0''"
  shows "snd (makeAPICall pf c path data http_method) =
     Fulfilled
       (JObj (filter (\<lambda>p. fst p \<noteq> ''code'' \<and> fst p \<noteq> ''message'')
                (urlencoded_out (res_text res))))"
proof -
  have "on_response pf res =
      Returned (Fulfilled
        (JObj (delete_prop ''message'' (delete_prop ''code'' (urlencoded_out (res_text res))))))"
    using on_response_urlencoded [OF assms(2-5), of pf] assms(6) by (simp add: Let_def)
  with call_on_response [OF assms(1)] show ?thesis
    by (simp only: delete_code_and_message completion.case)
qed

theorem urlencoded_success_witness:
  "snd (makeAPICall (answering urlencoded_ok) (ComgatePaymentModule [] Map.empty)
          ''status'' None ''POST'')
     = Fulfilled (JObj [(''foo'', JStr ''bar'')])"
  using urlencoded_success [of "answering urlencoded_ok" "ComgatePaymentModule [] Map.empty"
      "''status''" None "''POST''" urlencoded_ok "''application/x-www-form-urlencoded''"]
  by (simp add: answering_def urlencoded_ok_def ok_def urlencoded_out_examples get_prop_def)

text \<open>
  C6 as stated fails: under a content-type that contains \<open>text/html\<close> and also
  \<open>application/json\<close>, the body \<open>code=0&message=ok&foo=bar\<close> is read as JSON and the call
  rejects.
\<close>

theorem urlencoded_success_counterexample:
  "ok both_types_ok
   \<and> content_type both_types_ok = Some ''text/html; alt=application/json''
   \<and> str_includes ''text/html; alt=application/json'' ''text/html''
   \<and> get_prop (urlencoded_out (res_text both_types_ok)) ''code'' = JStr ''0''
   \<and> snd (makeAPICall (answering both_types_ok) (ComgatePaymentModule [] Map.empty)
            ''status'' None ''POST'')
       = Rejected (JErr ''FetchError'' ''invalid json response body'')"
proof -
  have "on_response pf both_types_ok = Returned (Rejected invalid_json)" for pf
    using on_response_json [of both_types_ok "''text/html; alt=application/json''" pf]
    by (simp add: both_types_ok_def ok_def)
  then show ?thesis
    by (simp add: call_answering invalid_json_def)
      (simp add: both_types_ok_def ok_def urlencoded_out_examples get_prop_def)
qed

text \<open>
  C7, as the code has it. When a successful response has a content-type that contains
  \<open>form-urlencoded\<close> or \<open>text/html\<close> and does not contain \<open>application/json\<close>, and the
  object built from its URL-encoded body has a \<open>code\<close> other than the string \<open>"0"\<close> (or
  none), the call rejects with the \<open>PaymentError\<close> constructed from that object's
  \<open>message\<close> and \<open>code\<close>.
\<close>

theorem urlencoded_failure:
  assumes "fetch pf (api_request pf c path data http_method) = Fulfilled res"
    and "ok res"
    and "content_type res = Some ct"
    and "\<not> str_includes ct ''application/json''"
    and "str_includes ct ''form-urlencoded'' \<or> str_includes ct ''text/html''"
    and "get_prop (urlencoded_out (res_text res)) ''code'' \<noteq> JStr ''0''"
  shows "snd (makeAPICall pf c path data http_method) =
     Rejected
       (PaymentError (get_prop (urlencoded_out (res_text res)) ''message'')
          (get_prop (urlencoded_out (res_text res)) ''code''))"
proof -
  have "on_response pf res =
      Returned (Rejected
        (PaymentError (get_prop (urlencoded_out (res_text res)) ''message'')
           (get_prop (urlencoded_out (res_text res)) ''code'')))"
    using on_response_urlencoded [OF assms(2-5), of pf] assms(6) by (simp add: Let_def)
  with call_on_response [OF assms(1)] show ?thesis
    by simp
qed

theorem urlencoded_failure_witness:
  "snd (makeAPICall (answering urlencoded_failed) (ComgatePaymentModule [] Map.empty)
          ''status'' None ''POST'')
     = Rejected (PaymentError (JStr ''failed'') (JStr ''1''))"
  using urlencoded_failure [of "answering urlencoded_failed" "ComgatePaymentModule [] Map.empty"
      "''status''" None "''POST''" urlencoded_failed "''application/x-www-form-urlencoded''"]
  by (simp add: answering_def urlencoded_failed_def ok_def urlencoded_out_examples get_prop_def)

text \<open>
  C7 as stated fails: under a content-type that contains \<open>text/html\<close> and also
  \<open>application/json\<close>, the body \<open>code=1&message=failed\<close> is read as JSON and the call
  rejects with the parser's error, not with a \<open>PaymentError\<close>.
\<close>

theorem urlencoded_failure_counterexample:
  "ok both_types_failed
   \<and> content_type both_types_failed = Some ''text/html; alt=application/json''
   \<and> str_includes ''text/html; alt=application/json'' ''text/html''
   \<and> get_prop (urlencoded_out (res_text both_types_failed)) ''code'' = JStr ''1''
   \<and> snd (makeAPICall (answering both_types_failed) (ComgatePaymentModule [] Map.empty)
            ''status'' None ''POST'')
       = Rejected (JErr ''FetchError'' ''invalid json response body'')"
proof -
  have "on_response pf both_types_failed = Returned (Rejected invalid_json)" for pf
    using on_response_json [of both_types_failed "''text/html; alt=application/json''" pf]
    by (simp add: both_types_failed_def ok_def)
  then show ?thesis
    by (simp add: call_answering invalid_json_def)
      (simp add: both_types_failed_def ok_def urlencoded_out_examples get_prop_def)
qed

section \<open>Properties of the operations\<close>

lemma map_of_define_prop:
  "map_of (define_prop k v ps) = (map_of ps)(k \<mapsto> v)"
  by (induction ps) (auto simp add: fun_eq_iff)

lemma map_of_spread_other:
  "k \<notin> fst ` set b \<Longrightarrow> map_of (spread a b) k = map_of a k"
  unfolding spread_def
  by (induction b arbitrary: a) (auto simp add: map_of_define_prop)

lemma map_of_delete_prop:
  "map_of (delete_prop k ps) k' = (if k' = k then None else map_of ps k')"
  by (induction ps) (auto simp add: delete_prop_def)

lemma keys_delete_prop:
  "k \<notin> fst ` set (delete_prop k ps)"
  by (auto simp add: delete_prop_def)

lemma map_of_keyed:
  "map_of (map ((\<lambda>key. (key, g key)) \<circ> fst) d) k =
     (if k \<in> fst ` set d then Some (g k) else None)"
  by (induction d) auto

lemma map_of_form_fields:
  "map_of (form_fields d) k =
     (if k = ''type'' then Some (JStr ''json'')
      else if k \<in> fst ` set d then Some (JStr (ToString (js_or (get_prop d k) (JStr []))))
      else None)"
  by (simp add: form_fields_def map_of_keyed)

lemma toString_method_or_empty:
  "toString_method (js_or v (JStr [])) = Inr (ToString (js_or v (JStr [])))"
  by (cases v) (auto simp add: toString_method_def js_or_def)

lemma useTest_not_nullish:
  "useTest (ComgatePaymentModule config env) \<noteq> JUndefined"
  "useTest (ComgatePaymentModule config env) \<noteq> JNull"
  by (auto simp add: ComgatePaymentModule_fields js_or_def)

text \<open>
  C9. \<open>refund\<close> called with a params object leaves that object without its \<open>amount\<close>
  entry and with every other entry as it was. When the configured \<open>useTest\<close> is neither
  \<open>undefined\<close> nor \<open>null\<close> (no constructed configuration has such a value), the call
  returns, and its request carries the \<open>amount\<close> the object had on entry, converted to a
  string (the empty string when it had none or a falsy one).
\<close>

theorem refund_deletes_amount_from_params:
  "fst (refund pf c transactionId (Some p)) = Some (filter (\<lambda>e. fst e \<noteq> ''amount'') p)
   \<and> (\<forall>k. map_of (filter (\<lambda>e. fst e \<noteq> ''amount'') p) k
          = (if k = ''amount'' then None else map_of p k))
   \<and> (useTest c \<noteq> JUndefined \<and> useTest c \<noteq> JNull \<longrightarrow>
        (\<exists>req pr body.
           snd (refund pf c transactionId (Some p)) = Returned (req, pr)
           \<and> req_body req = Some body
           \<and> map_of body ''amount''
               = Some (JStr (ToString (js_or (get_prop p ''amount'') (JStr []))))))"
proof -
  let ?p' = "delete_prop ''amount'' p"
  let ?base = "[(''merchant'', merchantId c),
                (''transId'', transactionId),
                (''secret'', secret c),
                (''test'', JStr (ToString (useTest c))),
                (''curr'', currency c),
                (''amount'', JStr (ToString (js_or (get_prop p ''amount'') (JStr []))))]"
  let ?data = "spread ?base ?p'"
  have shape: "?p' = filter (\<lambda>e. fst e \<noteq> ''amount'') p"
    by (simp add: delete_prop_def)
  have left: "fst (refund pf c transactionId (Some p)) = Some ?p'"
    by (simp add: refund_def Let_def)
  have kept: "\<forall>k. map_of ?p' k = (if k = ''amount'' then None else map_of p k)"
    by (simp add: map_of_delete_prop)
  have sent: "\<exists>req pr body.
      snd (refund pf c transactionId (Some p)) = Returned (req, pr)
      \<and> req_body req = Some body
      \<and> map_of body ''amount''
          = Some (JStr (ToString (js_or (get_prop p ''amount'') (JStr []))))"
    if "useTest c \<noteq> JUndefined" and "useTest c \<noteq> JNull"
  proof -
    have call: "snd (refund pf c transactionId (Some p))
        = Returned (makeAPICall pf c ''refund'' (Some ?data) ''POST'')"
      using that by (simp add: refund_def Let_def toString_method_def)
    have body: "req_body (fst (makeAPICall pf c ''refund'' (Some ?data) ''POST''))
        = Some (form_fields ?data)"
      by (simp add: makeAPICall_def api_request_def Let_def)
    have amount: "map_of ?data ''amount''
        = Some (JStr (ToString (js_or (get_prop p ''amount'') (JStr []))))"
      by (simp add: map_of_spread_other [OF keys_delete_prop])
    then have key: "''amount'' \<in> fst ` set ?data"
      by (metis domI dom_map_of_conv_image_fst)
    have "get_prop ?data ''amount''
        = JStr (ToString (js_or (get_prop p ''amount'') (JStr [])))"
      using amount by (simp add: get_prop_def)
    then have field: "map_of (form_fields ?data) ''amount''
        = Some (JStr (ToString (js_or (get_prop p ''amount'') (JStr []))))"
      using key by (simp add: map_of_form_fields js_or_def)
    obtain req pr where made: "makeAPICall pf c ''refund'' (Some ?data) ''POST'' = (req, pr)"
      by (cases "makeAPICall pf c ''refund'' (Some ?data) ''POST''")
    with body have sent_body: "req_body req = Some (form_fields ?data)" by simp
    from call made have "snd (refund pf c transactionId (Some p)) = Returned (req, pr)"
      by simp
    with sent_body field show ?thesis
      by (intro exI [of _ req] exI [of _ pr] exI [of _ "form_fields ?data"] conjI)
  qed
  from left kept sent show ?thesis
    unfolding shape by blast
qed

theorem refund_deletes_amount_from_params_witness:
  "fst (refund (answering urlencoded_ok) (ComgatePaymentModule [] Map.empty) (JStr ''T1'')
          (Some [(''amount'', JNum 100), (''refId'', JStr ''r1'')]))
     = Some [(''refId'', JStr ''r1'')]
   \<and> useTest (ComgatePaymentModule [] Map.empty) = JBool False
   \<and> (\<exists>req pr.
        snd (refund (answering urlencoded_ok) (ComgatePaymentModule [] Map.empty) (JStr ''T1'')
               (Some [(''amount'', JNum 100), (''refId'', JStr ''r1'')]))
          = Returned (req, pr)
        \<and> req_body req
          = Some [(''type'', JStr ''json''),
                  (''merchant'', JStr []),
                  (''transId'', JStr ''T1''),
                  (''secret'', JStr []),
                  (''test'', JStr ''false''),
                  (''curr'', JStr ''CZK''),
                  (''amount'', JStr ''100''),
                  (''refId'', JStr ''r1'')])"
  using refund_deletes_amount_from_params [where pf = "answering urlencoded_ok"
      and c = "ComgatePaymentModule [] Map.empty" and transactionId = "JStr ''T1''"
      and p = "[(''amount'', JNum 100), (''refId'', JStr ''r1'')]"]
  by (simp add: refund_def makeAPICall_def api_request_def form_fields_def spread_def
      delete_prop_def toString_method_def ComgatePaymentModule_def js_or_def get_prop_def
      process_env_def Let_def show_int_def show_nat.simps)

lemma FormData_append_string:
  "FormData_append (JStr s) = Inr (JStr s)"
  by simp







end
